theory Spec2Isabelle
  imports Complex_Main "HOL-Library.Char_ord" "HOL-Library.List_Lexorder"
begin

section \<open>Python values used by the orchestrator\<close>

text \<open>
  Python strings are modelled as \<open>string\<close>, one \<open>char\<close> per code point, so that
  \<open>length\<close> is Python's \<open>len\<close>. Python's unbounded \<open>int\<close> is \<open>int\<close>. A \<open>float\<close> that
  holds an amount of money is modelled as \<open>real\<close>: the code only adds, scales and
  compares such values. JSON-shaped values (tool inputs, learnings) are \<open>json\<close>; a
  \<open>dict\<close> is an association list in insertion order.
\<close>

datatype json =
    JNull
  | JBool bool
  | JInt int
  | JStr string
  | JList "json list"
  | JObj "(string \<times> json) list"

type_synonym pydict = "(string \<times> json) list"

definition NL :: string where
  "NL = [CHR 0x0A]"

definition digit_char :: "nat \<Rightarrow> char" where
  "digit_char d = ''0123456789'' ! d"

function show_nat :: "nat \<Rightarrow> string" where
  "show_nat n = (if n < 10 then [digit_char n] else show_nat (n div 10) @ [digit_char (n mod 10)])"
  by pat_completeness auto
termination
  by (relation "measure id") auto

declare show_nat.simps [simp del]

definition show_int :: "int \<Rightarrow> string" where
  "show_int i = (if i < 0 then ''-'' @ show_nat (nat (- i)) else show_nat (nat i))"

text \<open>Python slices \<open>xs[:n]\<close> and \<open>xs[n:]\<close>: a negative bound counts from the end, and
  a bound beyond either end is clamped.\<close>

definition py_take :: "int \<Rightarrow> 'a list \<Rightarrow> 'a list" where
  "py_take n xs = (if 0 \<le> n then take (nat n) xs else take (length xs - nat (- n)) xs)"

definition py_drop :: "int \<Rightarrow> 'a list \<Rightarrow> 'a list" where
  "py_drop n xs = (if 0 \<le> n then drop (nat n) xs else drop (length xs - nat (- n)) xs)"

text \<open>The last \<open>n\<close> elements of a list.\<close>

definition last_n :: "nat \<Rightarrow> 'a list \<Rightarrow> 'a list" where
  "last_n n xs = drop (length xs - n) xs"

text \<open>\<open>sep.join(xs)\<close>.\<close>

fun join :: "string \<Rightarrow> string list \<Rightarrow> string" where
  "join sep [] = []"
| "join sep [x] = x"
| "join sep (x # y # ys) = x @ sep @ join sep (y # ys)"


section \<open>Context manager (context.py)\<close>

text \<open>A content block is a dict tagged by its \<open>type\<close> key; a block of any other type
  is \<open>OtherBlock\<close>. \<open>ToolUse\<close> carries id, name and input; \<open>ToolResult\<close> carries
  tool_use_id, content and is_error.\<close>

datatype block =
    Text string
  | ToolUse string string pydict
  | ToolResult string string bool
  | OtherBlock string

datatype content = Str string | Blocks "block list"

record message =
  role :: string
  content :: content

record TokenUsage =
  input_tokens :: int
  output_tokens :: int
  cache_read_tokens :: int
  cache_creation_tokens :: int

record ContextManager =
  system_prompt :: string
  messages :: "message list"
  max_context_tokens :: int
  checkpoint_threshold :: real
  summary_threshold :: real
  estimated_tokens :: int

text \<open>The dataclass constructor with its defaults: the estimate starts at 0 whatever the
  system prompt is.\<close>

definition ContextManager_new :: "string \<Rightarrow> int \<Rightarrow> real \<Rightarrow> real \<Rightarrow> ContextManager" where
  "ContextManager_new sp mct ct st =
     \<lparr>system_prompt = sp, messages = [], max_context_tokens = mct,
      checkpoint_threshold = ct, summary_threshold = st, estimated_tokens = 0\<rparr>"

definition estimate_tokens :: "string \<Rightarrow> int" where
  "estimate_tokens text = (if text = [] then 0 else int (length text) div 4)"

text \<open>\<open>json.dumps\<close> is a library function; it is a parameter \<open>dumps\<close> of the estimate.\<close>

fun estimate_block_tokens :: "(json \<Rightarrow> string) \<Rightarrow> block \<Rightarrow> int" where
  "estimate_block_tokens dumps (Text t) = estimate_tokens t"
| "estimate_block_tokens dumps (ToolUse i n inp) = estimate_tokens (dumps (JObj inp))"
| "estimate_block_tokens dumps (ToolResult i c e) = estimate_tokens c"
| "estimate_block_tokens dumps (OtherBlock ty) = 0"

fun estimate_message_tokens :: "(json \<Rightarrow> string) \<Rightarrow> message \<Rightarrow> int" where
  "estimate_message_tokens dumps m =
     (case content m of
        Str s \<Rightarrow> estimate_tokens s
      | Blocks bs \<Rightarrow> sum_list (map (estimate_block_tokens dumps) bs))"

definition token_total :: "(json \<Rightarrow> string) \<Rightarrow> ContextManager \<Rightarrow> int" where
  "token_total dumps ctx =
     estimate_tokens (system_prompt ctx)
       + sum_list (map (estimate_message_tokens dumps) (messages ctx))"

definition update_token_estimate :: "(json \<Rightarrow> string) \<Rightarrow> ContextManager \<Rightarrow> ContextManager" where
  "update_token_estimate dumps ctx = ctx\<lparr>estimated_tokens := token_total dumps ctx\<rparr>"

definition context_usage :: "ContextManager \<Rightarrow> real" where
  "context_usage ctx = real_of_int (estimated_tokens ctx) / real_of_int (max_context_tokens ctx)"

definition should_checkpoint :: "ContextManager \<Rightarrow> bool" where
  "should_checkpoint ctx = (context_usage ctx \<ge> checkpoint_threshold ctx)"

definition should_summarize :: "ContextManager \<Rightarrow> bool" where
  "should_summarize ctx = (context_usage ctx \<ge> summary_threshold ctx)"





definition summary_msg :: "nat \<Rightarrow> string \<Rightarrow> message" where
  "summary_msg n summary =
     \<lparr>role = ''user'',
      content = Str (''[CONTEXT SUMMARY - '' @ show_nat n @ '' previous messages]'' @ NL @ NL
                     @ summary @ NL @ NL @ ''[END SUMMARY - Recent conversation follows]'')\<rparr>"

definition summarize_old_context :: "(json \<Rightarrow> string) \<Rightarrow> string \<Rightarrow> int \<Rightarrow> ContextManager \<Rightarrow> ContextManager" where
  "summarize_old_context dumps summary keep_recent ctx =
     (if int (length (messages ctx)) \<le> keep_recent * 2 then ctx
      else
        let cutoff = int (length (messages ctx)) - keep_recent * 2;
            old_messages = py_take cutoff (messages ctx);
            recent_messages = py_drop cutoff (messages ctx)
        in update_token_estimate dumps
             (ctx\<lparr>messages := summary_msg (length old_messages) summary # recent_messages\<rparr>))"

definition clear :: "ContextManager \<Rightarrow> ContextManager" where
  "clear ctx = ctx\<lparr>messages := [], estimated_tokens := estimate_tokens (system_prompt ctx)\<rparr>"

text \<open>\<open>to_dict\<close> and \<open>from_dict\<close>. The exported dict has the three keys below;
  \<open>from_dict\<close> builds a manager with the class defaults for both thresholds, stores the
  saved estimate and recomputes it at once.\<close>

record context_dict =
  cd_system_prompt :: string
  cd_messages :: "message list"
  cd_estimated_tokens :: int

definition to_dict :: "ContextManager \<Rightarrow> context_dict" where
  "to_dict ctx =
     \<lparr>cd_system_prompt = system_prompt ctx, cd_messages = messages ctx,
      cd_estimated_tokens = estimated_tokens ctx\<rparr>"

definition from_dict :: "(json \<Rightarrow> string) \<Rightarrow> context_dict \<Rightarrow> int \<Rightarrow> ContextManager" where
  "from_dict dumps d mct =
     (let ctx = ContextManager_new (cd_system_prompt d) mct (6 / 10) (8 / 10);
          ctx = ctx\<lparr>messages := cd_messages d\<rparr>;
          ctx = ctx\<lparr>estimated_tokens := cd_estimated_tokens d\<rparr>
      in update_token_estimate dumps ctx)"


section \<open>Checkpoint store (checkpoint.py)\<close>

text \<open>The three files under \<open>.autopilot\<close>. A file is missing, holds text that is not
  JSON, or holds a document. \<open>json.dumps\<close> followed by \<open>json.loads\<close> returns the
  document that was written, so a written document is stored as its value.\<close>

datatype 'a disk_file = Missing | Corrupt | Valid 'a

record token_usage_dict =
  tu_input_tokens :: int
  tu_output_tokens :: int
  tu_cache_read_tokens :: int
  tu_cache_creation_tokens :: int
  tu_total :: int

record checkpoint =
  version :: int
  timestamp :: string
  cp_task_description :: string
  current_phase :: "string option"
  cp_completed_tasks :: "string list"
  cp_token_usage :: token_usage_dict
  cp_total_cost :: real
  cp_context :: context_dict
  extra_state :: pydict

record history_entry =
  he_timestamp :: string
  he_action :: string
  he_phase :: "string option"
  he_tasks_completed :: int
  he_cost :: real
  he_tokens :: int

record store =
  checkpoint_file :: "checkpoint disk_file"
  history_file :: "history_entry list"
  learnings_file :: "pydict disk_file"
  completed_files :: "(string \<times> checkpoint) list"

definition total :: "TokenUsage \<Rightarrow> int" where
  "total u = input_tokens u + output_tokens u"

definition TokenUsage_to_dict :: "TokenUsage \<Rightarrow> token_usage_dict" where
  "TokenUsage_to_dict u =
     \<lparr>tu_input_tokens = input_tokens u, tu_output_tokens = output_tokens u,
      tu_cache_read_tokens = cache_read_tokens u,
      tu_cache_creation_tokens = cache_creation_tokens u, tu_total = total u\<rparr>"


definition load :: "store \<Rightarrow> checkpoint option" where
  "load st = (case checkpoint_file st of Valid cp \<Rightarrow> Some cp | Corrupt \<Rightarrow> None | Missing \<Rightarrow> None)"

definition restore_context ::
  "(json \<Rightarrow> string) \<Rightarrow> store \<Rightarrow> int \<Rightarrow> (ContextManager \<times> TokenUsage \<times> real \<times> checkpoint) option" where
  "restore_context dumps st mct =
     (case load st of
        None \<Rightarrow> None
      | Some cp \<Rightarrow>
          let context = from_dict dumps (cp_context cp) mct;
              usage_data = cp_token_usage cp;
              token_usage = \<lparr>input_tokens = tu_input_tokens usage_data,
                             output_tokens = tu_output_tokens usage_data,
                             cache_read_tokens = tu_cache_read_tokens usage_data,
                             cache_creation_tokens = tu_cache_creation_tokens usage_data\<rparr>
          in Some (context, token_usage, cp_total_cost cp, cp))"


definition load_learnings :: "store \<Rightarrow> pydict" where
  "load_learnings st = (case learnings_file st of Valid d \<Rightarrow> d | Corrupt \<Rightarrow> [] | Missing \<Rightarrow> [])"

section \<open>Cost tracker (costs.py)\<close>

text \<open>The callbacks \<open>on_warning\<close> and \<open>on_alert\<close> are optional: the tracker records
  whether each is installed, and every invocation is appended to \<open>callback_calls\<close> with
  the total cost it was passed.\<close>

record CostConfig =
  warn :: real
  alert :: real
  max_limit :: real

record Pricing =
  price_input :: real
  price_output :: real

definition py_lower_char :: "char \<Rightarrow> char" where
  "py_lower_char c =
     (if CHR ''A'' \<le> c \<and> c \<le> CHR ''Z'' then char_of (of_char c + (32::nat)) else c)"

definition py_lower :: "string \<Rightarrow> string" where
  "py_lower s = map py_lower_char s"

fun starts_with :: "string \<Rightarrow> string \<Rightarrow> bool" where
  "starts_with s [] = True"
| "starts_with [] (p # ps) = False"
| "starts_with (c # cs) (p # ps) = (c = p \<and> starts_with cs ps)"

fun contains :: "string \<Rightarrow> string \<Rightarrow> bool" where
  "contains [] sub = (sub = [])"
| "contains (c # cs) sub = (starts_with (c # cs) sub \<or> contains cs sub)"

definition MODEL_MAP :: "string \<rightharpoonup> string" where
  "MODEL_MAP = [''haiku'' \<mapsto> ''claude-haiku-4-5-20251001'',
                ''sonnet'' \<mapsto> ''claude-sonnet-4-5-20250929'',
                ''opus'' \<mapsto> ''claude-opus-4-5-20251101'']"

definition DEFAULT_PRICING :: "string \<rightharpoonup> Pricing" where
  "DEFAULT_PRICING = [''haiku'' \<mapsto> \<lparr>price_input = 1, price_output = 5\<rparr>,
                      ''sonnet'' \<mapsto> \<lparr>price_input = 3, price_output = 15\<rparr>,
                      ''opus'' \<mapsto> \<lparr>price_input = 5, price_output = 25\<rparr>]"

definition get_model_short_name :: "string \<Rightarrow> string" where
  "get_model_short_name model =
     (let model_lower = py_lower model in
      if MODEL_MAP model_lower \<noteq> None then model_lower
      else if contains model_lower ''haiku'' then ''haiku''
      else if contains model_lower ''opus'' then ''opus''
      else ''sonnet'')"

datatype callback_call = OnWarning real | OnAlert real

record CostTracker =
  config :: CostConfig
  pricing :: "string \<rightharpoonup> Pricing"
  on_warning :: bool
  on_alert :: bool
  total_cost :: real
  ct_input_tokens :: int
  ct_output_tokens :: int
  api_calls :: int
  cost_by_model :: "string \<rightharpoonup> real"
  tokens_by_model :: "string \<rightharpoonup> int \<times> int"
  warning_acknowledged :: bool
  alert_acknowledged :: bool
  callback_calls :: "callback_call list"

definition CostTracker_init :: "CostConfig \<Rightarrow> (string \<rightharpoonup> Pricing) \<Rightarrow> bool \<Rightarrow> bool \<Rightarrow> CostTracker" where
  "CostTracker_init cfg pr w a =
     \<lparr>config = cfg, pricing = pr, on_warning = w, on_alert = a, total_cost = 0,
      ct_input_tokens = 0, ct_output_tokens = 0, api_calls = 0,
      cost_by_model = Map.empty, tokens_by_model = Map.empty,
      warning_acknowledged = False, alert_acknowledged = False, callback_calls = []\<rparr>"

definition get_pricing :: "CostTracker \<Rightarrow> string \<Rightarrow> Pricing" where
  "get_pricing t model =
     (let short_name = get_model_short_name model in
      case pricing t short_name of
        Some p \<Rightarrow> p
      | None \<Rightarrow> (case DEFAULT_PRICING short_name of
                   Some p \<Rightarrow> p
                 | None \<Rightarrow> \<lparr>price_input = 3, price_output = 15\<rparr>))"

definition calculate_cost :: "CostTracker \<Rightarrow> string \<Rightarrow> int \<Rightarrow> int \<Rightarrow> real" where
  "calculate_cost t model inp outp =
     (let p = get_pricing t model;
          input_cost = (real_of_int inp / 1000000) * price_input p;
          output_cost = (real_of_int outp / 1000000) * price_output p
      in input_cost + output_cost)"

definition check_thresholds :: "CostTracker \<Rightarrow> CostTracker" where
  "check_thresholds t =
     (let t1 = (if total_cost t \<ge> warn (config t) \<and> \<not> warning_acknowledged t
                then t\<lparr>warning_acknowledged := True,
                       callback_calls := callback_calls t
                          @ (if on_warning t then [OnWarning (total_cost t)] else [])\<rparr>
                else t)
      in if total_cost t1 \<ge> alert (config t1) \<and> \<not> alert_acknowledged t1
         then t1\<lparr>alert_acknowledged := True,
                 callback_calls := callback_calls t1
                    @ (if on_alert t1 then [OnAlert (total_cost t1)] else [])\<rparr>
         else t1)"

definition add_usage :: "string \<Rightarrow> int \<Rightarrow> int \<Rightarrow> CostTracker \<Rightarrow> real \<times> CostTracker" where
  "add_usage model inp outp t =
     (let cost = calculate_cost t model inp outp;
          t = t\<lparr>total_cost := total_cost t + cost,
                ct_input_tokens := ct_input_tokens t + inp,
                ct_output_tokens := ct_output_tokens t + outp,
                api_calls := api_calls t + 1\<rparr>;
          t = (if cost_by_model t model = None
               then t\<lparr>cost_by_model := (cost_by_model t)(model \<mapsto> 0),
                      tokens_by_model := (tokens_by_model t)(model \<mapsto> (0, 0))\<rparr>
               else t);
          t = t\<lparr>cost_by_model := (cost_by_model t)(model \<mapsto> the (cost_by_model t model) + cost),
                tokens_by_model := (tokens_by_model t)(model \<mapsto>
                   (fst (the (tokens_by_model t model)) + inp,
                    snd (the (tokens_by_model t model)) + outp))\<rparr>
      in (cost, check_thresholds t))"

definition should_stop :: "CostTracker \<Rightarrow> bool" where
  "should_stop t = (total_cost t \<ge> max_limit (config t))"

definition reset_alerts :: "CostTracker \<Rightarrow> CostTracker" where
  "reset_alerts t = t\<lparr>warning_acknowledged := False, alert_acknowledged := False\<rparr>"

definition set_initial_cost :: "real \<Rightarrow> CostTracker \<Rightarrow> CostTracker" where
  "set_initial_cost cost t = check_thresholds (t\<lparr>total_cost := cost\<rparr>)"

datatype tracker_call = AddUsage string int int | SetInitialCost real

fun do_call :: "CostTracker \<Rightarrow> tracker_call \<Rightarrow> CostTracker" where
  "do_call t (AddUsage model inp outp) = snd (add_usage model inp outp t)"
| "do_call t (SetInitialCost c) = set_initial_cost c t"

definition do_calls :: "tracker_call list \<Rightarrow> CostTracker \<Rightarrow> CostTracker" where
  "do_calls cs t = foldl do_call t cs"

fun is_warning_call :: "callback_call \<Rightarrow> bool" where
  "is_warning_call (OnWarning c) = True"
| "is_warning_call (OnAlert c) = False"

fun is_alert_call :: "callback_call \<Rightarrow> bool" where
  "is_alert_call (OnWarning c) = False"
| "is_alert_call (OnAlert c) = True"

fun call_at_or_above :: "CostConfig \<Rightarrow> callback_call \<Rightarrow> bool" where
  "call_at_or_above cfg (OnWarning c) = (warn cfg \<le> c)"
| "call_at_or_above cfg (OnAlert c) = (alert cfg \<le> c)"

definition latch_inv :: "CostConfig \<Rightarrow> CostTracker \<Rightarrow> bool" where
  "latch_inv cfg t \<longleftrightarrow>
     config t = cfg
     \<and> (\<not> warning_acknowledged t \<longrightarrow> filter is_warning_call (callback_calls t) = [])
     \<and> (\<not> alert_acknowledged t \<longrightarrow> filter is_alert_call (callback_calls t) = [])
     \<and> length (filter is_warning_call (callback_calls t)) \<le> 1
     \<and> length (filter is_alert_call (callback_calls t)) \<le> 1
     \<and> list_all (call_at_or_above cfg) (callback_calls t)"

section \<open>Orchestrator (orchestrator.py)\<close>

text \<open>\<open>OrchestratorConfig\<close>, with the fields the loop reads.\<close>

record OrchestratorConfig =
  cfg_model :: string
  max_tokens :: int
  cfg_max_context_tokens :: int
  cfg_checkpoint_threshold :: real
  cfg_summary_threshold :: real
  cost_config :: CostConfig
  cfg_pricing :: "string \<rightharpoonup> Pricing"
  max_iterations :: int
  max_tool_calls_per_turn :: int
  cooldown_on_error :: int

text \<open>What \<open>on_output\<close> is called with. The texts that the source decorates with
  symbols or formats from a float are kept as the data they are built from.\<close>

datatype output_event =
    OutText string
  | OutLimiting nat int
  | OutResumed string nat real
  | OutCheckpointSaved string
  | OutTaskCompleted

text \<open>The orchestrator's state. \<open>o_context\<close> is \<open>None\<close> until \<open>initialize\<close> or \<open>resume\<close>;
  \<open>checkpoint_mgr\<close> is the content of the \<open>.autopilot\<close> directory; \<open>world\<close> is whatever
  the tools act on (the project directory, subprocesses). The hooks \<open>on_tool_start\<close>,
  \<open>on_tool_end\<close> and \<open>on_checkpoint\<close> only notify and are left out.\<close>

record 'w Orchestrator =
  project_dir :: string
  o_config :: OrchestratorConfig
  o_context :: "ContextManager option"
  token_usage :: TokenUsage
  cost_tracker :: CostTracker
  task_description :: string
  completed_tasks :: "string list"
  is_complete :: bool
  needs_human_input :: bool
  human_input_request :: string
  checkpoint_mgr :: store
  outputs :: "output_event list"
  world :: 'w





text \<open>\<open>_build_system_prompt\<close>. \<open>py_str\<close> is Python's \<open>str\<close> of the learnings dict.\<close>

definition build_system_prompt ::
  "(json \<Rightarrow> string) \<Rightarrow> string \<Rightarrow> string \<Rightarrow> string list \<Rightarrow> pydict \<Rightarrow> string" where
  "build_system_prompt py_str dir task completed learnings =
     (let prompt =
        ''You are an expert software engineer working on a project.'' @ NL @ NL
        @ ''PROJECT DIRECTORY: '' @ dir @ NL @ NL
        @ ''TASK: '' @ task @ NL @ NL
        @ ''INSTRUCTIONS:'' @ NL
        @ ''1. Break down the task into phases (logical units of work)'' @ NL
        @ ''2. For each phase:'' @ NL
        @ ''   a. Implement the changes'' @ NL
        @ ''   b. Verify it works (run tests, check syntax, manual verification)'' @ NL
        @ ''   c. Call phase_complete with summary and verification details'' @ NL
        @ ''   d. This will automatically commit the changes'' @ NL
        @ ''3. If stuck or need clarification, use request_help tool'' @ NL
        @ ''4. When ALL phases are done, use task_complete tool'' @ NL @ NL
        @ ''CONSTRAINTS:'' @ NL
        @ ''- Only modify files within the project directory'' @ NL
        @ ''- Follow existing code style and patterns'' @ NL
        @ ''- Write tests for new functionality'' @ NL
        @ ''- Keep changes minimal and focused'' @ NL @ NL;
          prompt = (if learnings \<noteq> []
                    then prompt @ NL @ ''PROJECT LEARNINGS (from previous sessions):'' @ NL
                         @ py_str (JObj learnings) @ NL @ NL
                    else prompt)
      in if completed \<noteq> []
         then prompt @ NL @ ''COMPLETED SO FAR:'' @ NL
              @ join NL (map (\<lambda>t. ''- '' @ t) completed) @ NL @ NL
              @ ''Continue from where you left off.'' @ NL
         else prompt)"

definition initialize :: "(json \<Rightarrow> string) \<Rightarrow> string \<Rightarrow> 'w Orchestrator \<Rightarrow> 'w Orchestrator" where
  "initialize py_str task orch =
     (let orch = orch\<lparr>task_description := task\<rparr>;
          sp = build_system_prompt py_str (project_dir orch) (task_description orch)
                 (completed_tasks orch) (load_learnings (checkpoint_mgr orch));
          c = ContextManager_new sp (cfg_max_context_tokens (o_config orch))
                (cfg_checkpoint_threshold (o_config orch)) (cfg_summary_threshold (o_config orch))
      in orch\<lparr>o_context := Some c, completed_tasks := [], is_complete := False\<rparr>)"

text \<open>\<open>resume\<close>: returns whether a checkpoint was loaded, and the new state.\<close>

definition resume ::
  "(json \<Rightarrow> string) \<Rightarrow> (json \<Rightarrow> string) \<Rightarrow> 'w Orchestrator \<Rightarrow> bool \<times> 'w Orchestrator" where
  "resume dumps py_str orch =
     (case restore_context dumps (checkpoint_mgr orch) (cfg_max_context_tokens (o_config orch)) of
        None \<Rightarrow> (False, orch)
      | Some (c, usage, cost, cp) \<Rightarrow>
          let orch = orch\<lparr>o_context := Some c,
                          token_usage := usage,
                          cost_tracker := set_initial_cost cost (cost_tracker orch),
                          task_description := cp_task_description cp,
                          completed_tasks := cp_completed_tasks cp\<rparr>;
              sp = build_system_prompt py_str (project_dir orch) (task_description orch)
                     (completed_tasks orch) (load_learnings (checkpoint_mgr orch));
              orch = orch\<lparr>o_context := Some (c\<lparr>system_prompt := sp\<rparr>)\<rparr>;
              orch = orch\<lparr>outputs := outputs orch
                        @ [OutResumed (task_description orch) (length (completed_tasks orch)) cost]\<rparr>
          in (True, orch))"




text \<open>
  One pass of the loop body of \<open>run\<close> from ``Process response'' on, for a response with
  the given content blocks and stop reason. The verdict says whether the loop goes on
  or \<open>run\<close> returns. \<open>run\<close> refuses to start without a context.
\<close>

datatype verdict = Continue | Return bool | RuntimeError


section \<open>Tools (tools.py): strings, paths and the environment\<close>

text \<open>An exception raised inside a tool method: a \<open>ToolError\<close> with its message, or any
  other \<open>Exception\<close> with its type name and message. Exceptions that Python does not
  derive from \<open>Exception\<close> (a keyboard interrupt) are signals from outside and are not
  modelled.\<close>

datatype exn = ToolError string | PyException string string

fun exn_str :: "exn \<Rightarrow> string" where
  "exn_str (ToolError m) = m"
| "exn_str (PyException ty m) = m"

definition SQ :: string where
  "SQ = [CHR 0x27]"

definition TAB :: string where
  "TAB = [CHR 0x09]"

subsection \<open>String methods\<close>

text \<open>\<open>s.count(sub)\<close>: non-overlapping occurrences, scanning from the left; the empty
  string occurs \<open>len(s) + 1\<close> times.\<close>

function count_from :: "string \<Rightarrow> string \<Rightarrow> nat" where
  "count_from s sub =
     (if sub = [] \<or> s = [] then 0
      else if starts_with s sub then Suc (count_from (drop (length sub) s) sub)
      else count_from (tl s) sub)"
  by pat_completeness auto
termination
  by (relation "measure (\<lambda>(s, sub). length s)") auto

declare count_from.simps [simp del]

definition py_count :: "string \<Rightarrow> string \<Rightarrow> nat" where
  "py_count s sub = (if sub = [] then length s + 1 else count_from s sub)"

text \<open>\<open>s.replace(old, new)\<close> and \<open>s.replace(old, new, 1)\<close>.\<close>

function replace_from :: "string \<Rightarrow> string \<Rightarrow> string \<Rightarrow> string" where
  "replace_from s old new =
     (if old = [] \<or> s = [] then s
      else if starts_with s old then new @ replace_from (drop (length old) s) old new
      else hd s # replace_from (tl s) old new)"
  by pat_completeness auto
termination
  by (relation "measure (\<lambda>(s, old, new). length s)") auto

declare replace_from.simps [simp del]

definition py_replace :: "string \<Rightarrow> string \<Rightarrow> string \<Rightarrow> string" where
  "py_replace s old new =
     (if old = [] then new @ concat (map (\<lambda>c. c # new) s) else replace_from s old new)"

fun replace_first :: "string \<Rightarrow> string \<Rightarrow> string \<Rightarrow> string" where
  "replace_first [] old new = (if old = [] then new else [])"
| "replace_first (c # cs) old new =
     (if starts_with (c # cs) old then new @ drop (length old) (c # cs)
      else c # replace_first cs old new)"

text \<open>Whitespace as \<open>str.split()\<close> and \<open>str.strip()\<close> see it, among the first 256 code
  points.\<close>

definition is_space :: "char \<Rightarrow> bool" where
  "is_space c = (of_char c \<in> {9, 10, 11, 12, 13, 28, 29, 30, 31, 32, 133, 160 :: nat})"

fun split_ws :: "string \<Rightarrow> string \<Rightarrow> string list" where
  "split_ws cur [] = (if cur = [] then [] else [cur])"
| "split_ws cur (c # cs) =
     (if is_space c then (if cur = [] then split_ws [] cs else cur # split_ws [] cs)
      else split_ws (cur @ [c]) cs)"

definition py_split :: "string \<Rightarrow> string list" where
  "py_split s = split_ws [] s"

definition py_strip :: "string \<Rightarrow> string" where
  "py_strip s = rev (dropWhile is_space (rev (dropWhile is_space s)))"

text \<open>\<open>s.split(sep)[0]\<close> for a non-empty separator: the text before its first
  occurrence.\<close>

fun before_sep :: "string \<Rightarrow> string \<Rightarrow> string" where
  "before_sep [] sep = []"
| "before_sep (c # cs) sep = (if starts_with (c # cs) sep then [] else c # before_sep cs sep)"

text \<open>\<open>s.split(sep)\<close> for a one-character separator.\<close>

fun split_char :: "char \<Rightarrow> string \<Rightarrow> string \<Rightarrow> string list" where
  "split_char sep cur [] = [cur]"
| "split_char sep cur (c # cs) =
     (if c = sep then cur # split_char sep [] cs else split_char sep (cur @ [c]) cs)"

text \<open>\<open>s.splitlines()\<close>: the line boundaries among the first 256 code points; a
  carriage return followed by a line feed is one boundary.\<close>

definition is_line_break :: "char \<Rightarrow> bool" where
  "is_line_break c = (of_char c \<in> {10, 11, 12, 13, 28, 29, 30, 133 :: nat})"

fun split_lines :: "string \<Rightarrow> string \<Rightarrow> string list" where
  "split_lines cur [] = (if cur = [] then [] else [cur])"
| "split_lines cur [c] = (if is_line_break c then [cur] else [cur @ [c]])"
| "split_lines cur (c # d # cs) =
     (if c = CHR 0x0D \<and> d = CHR 0x0A then cur # split_lines [] cs
      else if is_line_break c then cur # split_lines [] (d # cs)
      else split_lines (cur @ [c]) (d # cs))"

definition splitlines :: "string \<Rightarrow> string list" where
  "splitlines s = split_lines [] s"

text \<open>\<open>f"{i:6}"\<close>: right-aligned in six columns.\<close>

definition rjust6 :: "string \<Rightarrow> string" where
  "rjust6 s = replicate (6 - length s) CHR '' '' @ s"

text \<open>A slice \<open>xs[a:b]\<close> with integer bounds.\<close>

definition py_index :: "int \<Rightarrow> nat \<Rightarrow> nat" where
  "py_index i n = (if i < 0 then nat (int n + i) else min (nat i) n)"

definition py_slice :: "int \<Rightarrow> int \<Rightarrow> 'a list \<Rightarrow> 'a list" where
  "py_slice a b xs =
     (let i = py_index a (length xs); j = py_index b (length xs) in take (j - i) (drop i xs))"

subsection \<open>Paths\<close>

text \<open>A \<open>pathlib\<close> path on POSIX: its root (empty, one slash, or two slashes) and its
  parts. Parsing drops empty parts and single dots and keeps double dots.\<close>

datatype ppath = Path string "string list"

fun path_root :: "ppath \<Rightarrow> string" where
  "path_root (Path r ps) = r"

fun path_parts :: "ppath \<Rightarrow> string list" where
  "path_parts (Path r ps) = ps"

definition isabs :: "string \<Rightarrow> bool" where
  "isabs s = starts_with s ''/''"

definition parse_root :: "string \<Rightarrow> string" where
  "parse_root s =
     (if starts_with s ''//'' \<and> \<not> starts_with s ''///'' then ''//''
      else if starts_with s ''/'' then ''/'' else [])"

definition parse_parts :: "string \<Rightarrow> string list" where
  "parse_parts s = filter (\<lambda>p. p \<noteq> [] \<and> p \<noteq> ''.'') (split_char CHR ''/'' [] s)"

definition parse_path :: "string \<Rightarrow> ppath" where
  "parse_path s = Path (parse_root s) (parse_parts s)"

text \<open>\<open>base / s\<close> for a relative \<open>s\<close>.\<close>

definition join_path :: "ppath \<Rightarrow> string \<Rightarrow> ppath" where
  "join_path base s = Path (path_root base) (path_parts base @ parse_parts s)"

definition child :: "ppath \<Rightarrow> string \<Rightarrow> ppath" where
  "child base name = Path (path_root base) (path_parts base @ [name])"

definition parent :: "ppath \<Rightarrow> ppath" where
  "parent p = Path (path_root p) (butlast (path_parts p))"

definition path_name :: "ppath \<Rightarrow> string" where
  "path_name p = (if path_parts p = [] then [] else last (path_parts p))"

text \<open>\<open>p.relative_to(other)\<close>: the parts of \<open>p\<close> after those of \<open>other\<close>, or
  \<open>ValueError\<close> (here \<open>None\<close>).\<close>

definition relative_to :: "ppath \<Rightarrow> ppath \<Rightarrow> string list option" where
  "relative_to p other =
     (if path_root p = path_root other
         \<and> take (length (path_parts other)) (path_parts p) = path_parts other
      then Some (drop (length (path_parts other)) (path_parts p))
      else None)"

definition rel_str :: "string list \<Rightarrow> string" where
  "rel_str ps = (if ps = [] then ''.'' else join ''/'' ps)"

text \<open>\<open>Path.suffix\<close>: from the last dot of the name on, unless that dot is the first or
  the last character.\<close>

definition suffix :: "string \<Rightarrow> string" where
  "suffix name =
     (let i = length name - length (takeWhile (\<lambda>c. c \<noteq> CHR ''.'') (rev name))
      in if CHR ''.'' \<in> set name \<and> 1 < i \<and> i < length name then drop (i - 1) name else [])"

subsection \<open>The environment\<close>

text \<open>What a subprocess call comes back with: it completes with stdout, stderr and a
  return code, it times out, or starting it raises.\<close>

datatype proc = Completed string string int | TimeoutExpired | ProcFailed exn

text \<open>
  The operating system and library calls that the tools make, over a world \<open>'w\<close> that
  holds the filesystem and the processes. A call that can raise returns the exception on
  the left; a call that can change the world returns the new world.
  \<open>env_realpath\<close> is \<open>Path.resolve()\<close>: it follows symbolic links and double dots.
  \<open>env_re_compile\<close> is \<open>re.compile\<close>: an error message, or the test \<open>regex.search\<close>
  on a line. \<open>env_fnmatch\<close> is \<open>fnmatch.fnmatch\<close>. \<open>env_run\<close> is
  \<open>subprocess.run\<close> of a shell command in a directory with a timeout, \<open>env_run_argv\<close>
  the same for an argument vector.
\<close>

record 'w env =
  env_realpath :: "'w \<Rightarrow> ppath \<Rightarrow> exn + ppath"
  env_exists :: "'w \<Rightarrow> ppath \<Rightarrow> bool"
  env_is_file :: "'w \<Rightarrow> ppath \<Rightarrow> bool"
  env_is_dir :: "'w \<Rightarrow> ppath \<Rightarrow> bool"
  env_read_text :: "'w \<Rightarrow> ppath \<Rightarrow> exn + string"
  env_write_text :: "'w \<Rightarrow> ppath \<Rightarrow> string \<Rightarrow> exn option \<times> 'w"
  env_mkdir_parents :: "'w \<Rightarrow> ppath \<Rightarrow> exn option \<times> 'w"
  env_iterdir :: "'w \<Rightarrow> ppath \<Rightarrow> exn + string list"
  env_stat_size :: "'w \<Rightarrow> ppath \<Rightarrow> exn + nat"
  env_rglob :: "'w \<Rightarrow> ppath \<Rightarrow> string \<Rightarrow> exn + ppath list"
  env_re_compile :: "string \<Rightarrow> bool \<Rightarrow> string + (string \<Rightarrow> bool)"
  env_fnmatch :: "string \<Rightarrow> string \<Rightarrow> bool"
  env_run :: "'w \<Rightarrow> string \<Rightarrow> ppath \<Rightarrow> int \<Rightarrow> proc \<times> 'w"
  env_run_argv :: "'w \<Rightarrow> string list \<Rightarrow> ppath \<Rightarrow> int \<Rightarrow> proc \<times> 'w"

text \<open>The \<open>tools.bash\<close> configuration, the git settings that \<open>phase_complete\<close> reads
  from the orchestrator configuration when there is one, and the \<open>Tools\<close> object.\<close>

record bash_config =
  bash_timeout :: "int option"
  bash_allowed :: "string list"
  bash_blocked :: "string list"
  bash_confirm :: "string list"

record git_config =
  git_auto_commit :: bool
  git_commit_prefix :: string
  git_require_verification :: bool

record Tools =
  tools_project_dir :: ppath
  tools_bash_config :: bash_config
  orchestrator_config :: "git_config option"
  on_confirm_request :: "(string \<Rightarrow> bool) option"

text \<open>\<open>resolve_path\<close>. A \<open>ValueError\<close> from either \<open>resolve()\<close> is caught like the one
  from \<open>relative_to\<close>; any other exception propagates.\<close>

definition outside_error :: "string \<Rightarrow> exn" where
  "outside_error path = ToolError (''Path '' @ SQ @ path @ SQ @ '' is outside project directory'')"

fun is_value_error :: "exn \<Rightarrow> bool" where
  "is_value_error (PyException ty m) = (ty = ''ValueError'')"
| "is_value_error (ToolError m) = False"

definition resolve_path :: "'w env \<Rightarrow> Tools \<Rightarrow> 'w \<Rightarrow> string \<Rightarrow> exn + ppath" where
  "resolve_path E T w path =
     (let resolved = (if isabs path then parse_path path else join_path (tools_project_dir T) path)
      in case env_realpath E w resolved of
           Inl e \<Rightarrow> (if is_value_error e then Inl (outside_error path) else Inl e)
         | Inr r \<Rightarrow>
             (case env_realpath E w (tools_project_dir T) of
                Inl e \<Rightarrow> (if is_value_error e then Inl (outside_error path) else Inl e)
              | Inr pr \<Rightarrow>
                  (if relative_to r pr = None then Inl (outside_error path) else Inr resolved)))"

section \<open>Tools (tools.py): the tool methods\<close>

text \<open>Every method takes the world and returns what it returns or raises, with the new
  world.\<close>

definition number_line :: "nat \<Rightarrow> string \<Rightarrow> string" where
  "number_line i line =
     rjust6 (show_nat i) @ TAB
     @ (if length line > 2000 then take 2000 line @ ''... [truncated]'' else line)"

definition tool_read_file ::
  "'w env \<Rightarrow> Tools \<Rightarrow> 'w \<Rightarrow> string \<Rightarrow> int \<Rightarrow> int \<Rightarrow> (exn + string) \<times> 'w" where
  "tool_read_file E T w path offset limit =
     (case resolve_path E T w path of
        Inl e \<Rightarrow> (Inl e, w)
      | Inr file_path \<Rightarrow>
          if \<not> env_exists E w file_path then (Inl (ToolError (''File not found: '' @ path)), w)
          else if \<not> env_is_file E w file_path then (Inl (ToolError (''Not a file: '' @ path)), w)
          else
            (case env_read_text E w file_path of
               Inl e \<Rightarrow> (Inl (ToolError (''Cannot read file: '' @ exn_str e)), w)
             | Inr text \<Rightarrow>
                 let lines = splitlines text;
                     total_lines = int (length lines);
                     start_idx = max 0 (offset - 1);
                     end_idx = min total_lines (start_idx + limit);
                     selected_lines = py_slice start_idx end_idx lines;
                     numbered = map (\<lambda>(k, line). number_line (nat start_idx + 1 + k) line)
                                  (enumerate 0 selected_lines);
                     result = join NL numbered
                 in (Inr (if end_idx < total_lines
                          then result @ NL @ NL @ ''[... '' @ show_int (total_lines - end_idx)
                               @ '' more lines]''
                          else result), w)))"

definition tool_write_file ::
  "'w env \<Rightarrow> Tools \<Rightarrow> 'w \<Rightarrow> string \<Rightarrow> string \<Rightarrow> (exn + string) \<times> 'w" where
  "tool_write_file E T w path text =
     (case resolve_path E T w path of
        Inl e \<Rightarrow> (Inl e, w)
      | Inr file_path \<Rightarrow>
          (case env_mkdir_parents E w (parent file_path) of
             (Some e, w1) \<Rightarrow> (Inl e, w1)
           | (None, w1) \<Rightarrow>
               (case env_write_text E w1 file_path text of
                  (Some e, w2) \<Rightarrow> (Inl (ToolError (''Cannot write file: '' @ exn_str e)), w2)
                | (None, w2) \<Rightarrow>
                    (Inr (''Successfully wrote '' @ show_nat (length text) @ '' bytes to '' @ path),
                     w2))))"

definition ambiguous_error :: "nat \<Rightarrow> exn" where
  "ambiguous_error n =
     ToolError (''String appears '' @ show_nat n
                @ '' times. Use replace_all=true or provide more context.'')"

definition tool_edit_file ::
  "'w env \<Rightarrow> Tools \<Rightarrow> 'w \<Rightarrow> string \<Rightarrow> string \<Rightarrow> string \<Rightarrow> bool \<Rightarrow> (exn + string) \<times> 'w" where
  "tool_edit_file E T w path old_string new_string replace_all =
     (case resolve_path E T w path of
        Inl e \<Rightarrow> (Inl e, w)
      | Inr file_path \<Rightarrow>
          if \<not> env_exists E w file_path then (Inl (ToolError (''File not found: '' @ path)), w)
          else
            (case env_read_text E w file_path of
               Inl e \<Rightarrow> (Inl (ToolError (''Cannot read file: '' @ exn_str e)), w)
             | Inr text \<Rightarrow>
                 if \<not> contains text old_string
                 then (Inl (ToolError (''String not found in file: '' @ take 100 old_string @ ''...'')), w)
                 else if \<not> replace_all \<and> py_count text old_string > 1
                 then (Inl (ambiguous_error (py_count text old_string)), w)
                 else
                   let new_content = (if replace_all then py_replace text old_string new_string
                                      else replace_first text old_string new_string);
                       n = (if replace_all then py_count text old_string else 1)
                   in (case env_write_text E w file_path new_content of
                         (Some e, w1) \<Rightarrow> (Inl (ToolError (''Cannot write file: '' @ exn_str e)), w1)
                       | (None, w1) \<Rightarrow>
                           (Inr (''Replaced '' @ show_nat n @ '' occurrence(s) in '' @ path), w1))))"

subsection \<open>bash\<close>

definition separators :: "string list" where
  "separators = [''|'', ''&&'', ''||'', '';'']"

definition base_command :: "string \<Rightarrow> string" where
  "base_command first =
     (case filter (\<lambda>sep. contains first sep) separators of
        [] \<Rightarrow> first
      | sep # seps \<Rightarrow> py_strip (before_sep first sep))"

definition blocked_error :: "string \<Rightarrow> exn" where
  "blocked_error cmd = ToolError (''Command '' @ SQ @ cmd @ SQ @ '' is blocked for security'')"

definition not_allowed_error :: "string \<Rightarrow> string list \<Rightarrow> exn" where
  "not_allowed_error base_cmd allowed =
     ToolError (''Command '' @ SQ @ base_cmd @ SQ @ '' is not in allowed list. ''
                @ ''Allowed commands: '' @ join '', '' (take 10 allowed) @ ''...'')"

definition not_confirmed_error :: "string \<Rightarrow> exn" where
  "not_confirmed_error base_cmd =
     ToolError (''Command '' @ SQ @ base_cmd @ SQ @ '' was not confirmed by user'')"

definition no_handler_error :: "string \<Rightarrow> exn" where
  "no_handler_error base_cmd =
     ToolError (''Command '' @ SQ @ base_cmd @ SQ
                @ '' requires confirmation but no confirmation handler is set. ''
                @ ''Command blocked for safety.'')"

definition bash_output :: "int \<Rightarrow> proc \<Rightarrow> exn + string" where
  "bash_output timeout p =
     (case p of
        TimeoutExpired \<Rightarrow> Inl (ToolError (''Command timed out after '' @ show_int timeout @ ''s''))
      | ProcFailed e \<Rightarrow> Inl (ToolError (''Command failed: '' @ exn_str e))
      | Completed out err rc \<Rightarrow>
          let output = out;
              output = (if err \<noteq> []
                        then (if output \<noteq> [] then output @ NL else output)
                             @ ''[stderr]'' @ NL @ err
                        else output);
              output = (if rc \<noteq> 0 then output @ NL @ ''[exit code: '' @ show_int rc @ '']''
                        else output);
              output = (if length output > 30000
                        then take 30000 output @ NL @ NL @ ''[... output truncated]''
                        else output)
          in Inr (if output = [] then ''[no output]'' else output))"

definition run_command :: "'w env \<Rightarrow> Tools \<Rightarrow> 'w \<Rightarrow> string \<Rightarrow> int \<Rightarrow> (exn + string) \<times> 'w" where
  "run_command E T w command timeout =
     (let r = env_run E w command (tools_project_dir T) timeout
      in (bash_output timeout (fst r), snd r))"

definition tool_bash ::
  "'w env \<Rightarrow> Tools \<Rightarrow> 'w \<Rightarrow> string \<Rightarrow> int option \<Rightarrow> (exn + string) \<times> 'w" where
  "tool_bash E T w command timeout_arg =
     (let cfg = tools_bash_config T;
          timeout = (case timeout_arg of
                       Some t \<Rightarrow> t
                     | None \<Rightarrow> (case bash_timeout cfg of Some t \<Rightarrow> t | None \<Rightarrow> 120));
          parts = py_split command
      in if parts = [] then (Inl (ToolError ''Empty command''), w)
         else
           let base_cmd = base_command (hd parts)
           in case filter (\<lambda>blocked_cmd. blocked_cmd \<in> set parts) (bash_blocked cfg) of
                blocked_cmd # rest \<Rightarrow> (Inl (blocked_error blocked_cmd), w)
              | [] \<Rightarrow>
                  if bash_allowed cfg \<noteq> [] \<and> base_cmd \<notin> set (bash_allowed cfg)
                  then (Inl (not_allowed_error base_cmd (bash_allowed cfg)), w)
                  else if list_ex (\<lambda>cmd. cmd \<in> set parts) (bash_confirm cfg)
                  then (case on_confirm_request T of
                          Some ask \<Rightarrow>
                            if ask (''Command requires confirmation: '' @ command @ NL
                                    @ ''This command may modify or delete files.'')
                            then run_command E T w command timeout
                            else (Inl (not_confirmed_error base_cmd), w)
                        | None \<Rightarrow> (Inl (no_handler_error base_cmd), w))
                  else run_command E T w command timeout)"

subsection \<open>list_dir\<close>

text \<open>\<open>str\<close> of an optional argument inside a message, and the choice between the
  resolved argument and the project directory (\<open>if path\<close>: absent and empty both
  fail the test).\<close>

definition opt_str :: "string option \<Rightarrow> string" where
  "opt_str p = (case p of None \<Rightarrow> ''None'' | Some s \<Rightarrow> s)"

definition resolve_or_root :: "'w env \<Rightarrow> Tools \<Rightarrow> 'w \<Rightarrow> string option \<Rightarrow> exn + ppath" where
  "resolve_or_root E T w p =
     (case p of
        None \<Rightarrow> Inr (tools_project_dir T)
      | Some s \<Rightarrow> (if s = [] then Inr (tools_project_dir T) else resolve_path E T w s))"

text \<open>The loop over the sorted directory entries: a hidden name is skipped, a directory
  gets a slash, a file its size; a failing \<open>stat\<close> ends the loop with its exception.\<close>

fun list_entries :: "'w env \<Rightarrow> 'w \<Rightarrow> ppath \<Rightarrow> string list \<Rightarrow> exn + string list" where
  "list_entries E w dir [] = Inr []"
| "list_entries E w dir (name # names) =
     (if starts_with name ''.'' then list_entries E w dir names
      else if env_is_dir E w (child dir name)
      then (case list_entries E w dir names of
              Inl e \<Rightarrow> Inl e
            | Inr entries \<Rightarrow> Inr ((name @ ''/'') # entries))
      else (case env_stat_size E w (child dir name) of
              Inl e \<Rightarrow> Inl e
            | Inr sz \<Rightarrow>
                (case list_entries E w dir names of
                   Inl e \<Rightarrow> Inl e
                 | Inr entries \<Rightarrow> Inr ((name @ '' ('' @ show_nat sz @ '' bytes)'') # entries))))"

definition tool_list_dir ::
  "'w env \<Rightarrow> Tools \<Rightarrow> 'w \<Rightarrow> string option \<Rightarrow> (exn + string) \<times> 'w" where
  "tool_list_dir E T w path =
     (case resolve_or_root E T w path of
        Inl e \<Rightarrow> (Inl e, w)
      | Inr dir_path \<Rightarrow>
          if \<not> env_exists E w dir_path
          then (Inl (ToolError (''Directory not found: '' @ opt_str path)), w)
          else if \<not> env_is_dir E w dir_path
          then (Inl (ToolError (''Not a directory: '' @ opt_str path)), w)
          else
            (case env_iterdir E w dir_path of
               Inl e \<Rightarrow> (Inl e, w)
             | Inr names \<Rightarrow>
                 (case list_entries E w dir_path (sort names) of
                    Inl e \<Rightarrow> (Inl e, w)
                  | Inr entries \<Rightarrow>
                      (Inr (if entries = [] then ''[empty directory]'' else join NL entries), w))))"

subsection \<open>glob and grep\<close>

definition tool_glob ::
  "'w env \<Rightarrow> Tools \<Rightarrow> 'w \<Rightarrow> string \<Rightarrow> string option \<Rightarrow> (exn + string) \<times> 'w" where
  "tool_glob E T w pattern path =
     (case resolve_or_root E T w path of
        Inl e \<Rightarrow> (Inl e, w)
      | Inr search_dir \<Rightarrow>
          if \<not> env_is_dir E w search_dir
          then (Inl (ToolError (''Not a directory: '' @ opt_str path)), w)
          else
            (case env_rglob E w search_dir
                    (dropWhile (\<lambda>c. c = CHR ''*'' \<or> c = CHR ''/'') pattern) of
               Inl e \<Rightarrow> (Inl e, w)
             | Inr found \<Rightarrow>
                 let matches = concat (map (\<lambda>file_path.
                                  if env_is_file E w file_path
                                  then (case relative_to file_path (tools_project_dir T) of
                                          Some rel \<Rightarrow> [rel_str rel] | None \<Rightarrow> [])
                                  else []) found)
                 in if matches = []
                    then (Inr (''No files matching '' @ SQ @ pattern @ SQ), w)
                    else if length (sort matches) > 100
                    then (Inr (join NL (take 100 (sort matches)) @ NL @ NL @ ''[... ''
                               @ show_nat (length matches - 100) @ '' more files]''), w)
                    else (Inr (join NL (sort matches)), w)))"

definition binary_suffixes :: "string list" where
  "binary_suffixes = [''.pyc'', ''.so'', ''.o'', ''.a'', ''.png'', ''.jpg'', ''.gif'', ''.ico'',
                      ''.woff'', ''.woff2'', ''.ttf'', ''.eot'']"

text \<open>The loop of \<open>search_file\<close> over the numbered lines: it stops at 100 results.\<close>

fun search_lines :: "(string \<Rightarrow> bool) \<Rightarrow> string \<Rightarrow> string list \<Rightarrow> (nat \<times> string) list \<Rightarrow> string list" where
  "search_lines found rel results [] = results"
| "search_lines found rel results ((line_num, line) # more_lines) =
     (if found line
      then (let results = results @ [rel @ '':'' @ show_nat line_num @ '': '' @ take 200 line]
            in if length results \<ge> 100 then results
               else search_lines found rel results more_lines)
      else search_lines found rel results more_lines)"

definition search_file ::
  "'w env \<Rightarrow> Tools \<Rightarrow> 'w \<Rightarrow> (string \<Rightarrow> bool) \<Rightarrow> string list \<times> nat \<Rightarrow> ppath \<Rightarrow>
   exn + string list \<times> nat" where
  "search_file E T w found acc file_path =
     (let results = fst acc; files_searched = snd acc + 1
      in case env_read_text E w file_path of
           Inl e \<Rightarrow> Inr (results, files_searched)
         | Inr text \<Rightarrow>
             (case relative_to file_path (tools_project_dir T) of
                None \<Rightarrow> Inl (PyException ''ValueError'' ''path is not in the subpath of the project'')
              | Some rel \<Rightarrow>
                  Inr (search_lines found (rel_str rel) results (enumerate 1 (splitlines text)),
                       files_searched)))"

fun search_tree ::
  "'w env \<Rightarrow> Tools \<Rightarrow> 'w \<Rightarrow> (string \<Rightarrow> bool) \<Rightarrow> string option \<Rightarrow> string list \<times> nat \<Rightarrow>
   ppath list \<Rightarrow> exn + string list \<times> nat" where
  "search_tree E T w found glob_filter acc [] = Inr acc"
| "search_tree E T w found glob_filter acc (file_path # paths) =
     (if length (fst acc) \<ge> 100 then Inr acc
      else if \<not> env_is_file E w file_path then search_tree E T w found glob_filter acc paths
      else if (case glob_filter of
                 None \<Rightarrow> False
               | Some g \<Rightarrow> g \<noteq> [] \<and> \<not> env_fnmatch E (path_name file_path) g)
      then search_tree E T w found glob_filter acc paths
      else if suffix (path_name file_path) \<in> set binary_suffixes
      then search_tree E T w found glob_filter acc paths
      else (case search_file E T w found acc file_path of
              Inl e \<Rightarrow> Inl e
            | Inr acc' \<Rightarrow> search_tree E T w found glob_filter acc' paths))"

definition grep_output :: "string \<Rightarrow> string list \<times> nat \<Rightarrow> string" where
  "grep_output pattern acc =
     (if fst acc = []
      then ''No matches for '' @ SQ @ pattern @ SQ @ '' in '' @ show_nat (snd acc) @ '' files''
      else if length (fst acc) \<ge> 100
      then join NL (fst acc) @ NL @ NL @ ''[... results limited to 100 matches]''
      else join NL (fst acc))"

definition tool_grep ::
  "'w env \<Rightarrow> Tools \<Rightarrow> 'w \<Rightarrow> string \<Rightarrow> string option \<Rightarrow> string option \<Rightarrow> bool \<Rightarrow>
   (exn + string) \<times> 'w" where
  "tool_grep E T w pattern path glob_filter case_insensitive =
     (case resolve_or_root E T w path of
        Inl e \<Rightarrow> (Inl e, w)
      | Inr search_path \<Rightarrow>
          (case env_re_compile E pattern case_insensitive of
             Inl msg \<Rightarrow> (Inl (ToolError (''Invalid regex: '' @ msg)), w)
           | Inr found \<Rightarrow>
               if env_is_file E w search_path
               then (case search_file E T w found ([], 0) search_path of
                       Inl e \<Rightarrow> (Inl e, w)
                     | Inr acc \<Rightarrow> (Inr (grep_output pattern acc), w))
               else (case env_rglob E w search_path ''*'' of
                       Inl e \<Rightarrow> (Inl e, w)
                     | Inr paths \<Rightarrow>
                         (case search_tree E T w found glob_filter ([], 0) paths of
                            Inl e \<Rightarrow> (Inl e, w)
                          | Inr acc \<Rightarrow> (Inr (grep_output pattern acc), w)))))"

subsection \<open>phase_complete, task_complete, request_help\<close>

text \<open>The three symbols of the messages, as their UTF-8 bytes.\<close>

definition WARNING_SIGN :: string where
  "WARNING_SIGN = [CHR 0xE2, CHR 0x9A, CHR 0xA0]"

definition CHECK_MARK :: string where
  "CHECK_MARK = [CHR 0xE2, CHR 0x9C, CHR 0x93]"

definition BALLOT_X :: string where
  "BALLOT_X = [CHR 0xE2, CHR 0x9C, CHR 0x97]"

definition commit_message ::
  "string \<Rightarrow> string \<Rightarrow> string \<Rightarrow> string option \<Rightarrow> string list option \<Rightarrow> string" where
  "commit_message commit_prefix phase_name summary verification files_changed =
     (let msg = commit_prefix @ ''('' @ phase_name @ ''): '' @ summary @ NL @ NL;
          msg = (case verification of
                   Some v \<Rightarrow> (if v \<noteq> [] then msg @ ''Verification: '' @ v @ NL else msg)
                 | None \<Rightarrow> msg)
      in case files_changed of
           None \<Rightarrow> msg
         | Some fs \<Rightarrow>
             if fs = [] then msg
             else
               (let msg = msg @ NL @ ''Files changed:'' @ NL
                          @ concat (map (\<lambda>f. ''  - '' @ f @ NL) (take 20 fs))
                in if length fs > 20
                   then msg @ ''  ... and '' @ show_nat (length fs - 20) @ '' more'' @ NL
                   else msg))"

text \<open>What the \<open>except\<close> clauses around the git calls append for a call that did not
  complete.\<close>

definition git_failure :: "proc \<Rightarrow> string" where
  "git_failure p =
     (case p of
        TimeoutExpired \<Rightarrow> NL @ WARNING_SIGN @ '' Git operation timed out''
      | ProcFailed e \<Rightarrow>
          (case e of
             PyException ty m \<Rightarrow>
               (if ty = ''FileNotFoundError''
                then NL @ WARNING_SIGN @ '' Git not found - skipping commit''
                else NL @ WARNING_SIGN @ '' Git error: '' @ m)
           | ToolError m \<Rightarrow> NL @ WARNING_SIGN @ '' Git error: '' @ m)
      | Completed out err rc \<Rightarrow> [])"

definition git_commit_phase ::
  "'w env \<Rightarrow> Tools \<Rightarrow> 'w \<Rightarrow> string \<Rightarrow> string \<Rightarrow> string \<Rightarrow> string option \<Rightarrow>
   string list option \<Rightarrow> string \<times> 'w" where
  "git_commit_phase E T w commit_prefix phase_name summary verification files_changed =
     (case env_run_argv E w [''git'', ''status'', ''--porcelain''] (tools_project_dir T) 30 of
        (Completed out err rc, w1) \<Rightarrow>
          if py_strip out \<noteq> []
          then (case env_run_argv E w1 [''git'', ''add'', ''-A''] (tools_project_dir T) 30 of
                  (Completed out2 err2 rc2, w2) \<Rightarrow>
                    (case env_run_argv E w2
                            [''git'', ''commit'', ''-m'',
                             commit_message commit_prefix phase_name summary verification
                               files_changed]
                            (tools_project_dir T) 30 of
                       (Completed out3 err3 rc3, w3) \<Rightarrow>
                         (if rc3 = 0
                          then NL @ CHECK_MARK @ '' Committed: '' @ commit_prefix @ ''(''
                               @ phase_name @ ''): '' @ summary
                          else NL @ WARNING_SIGN @ '' Commit failed: '' @ err3, w3)
                     | (p3, w3) \<Rightarrow> (git_failure p3, w3))
                | (p2, w2) \<Rightarrow> (git_failure p2, w2))
          else (NL @ ''No uncommitted changes to commit.'', w1)
      | (p1, w1) \<Rightarrow> (git_failure p1, w1))"

definition tool_phase_complete ::
  "'w env \<Rightarrow> Tools \<Rightarrow> 'w \<Rightarrow> string \<Rightarrow> string \<Rightarrow> string option \<Rightarrow> string list option \<Rightarrow>
   bool option \<Rightarrow> (exn + string) \<times> 'w" where
  "tool_phase_complete E T w phase_name summary verification files_changed tests_passed =
     (let result_lines = [''Phase '' @ SQ @ phase_name @ SQ @ '' completed: '' @ summary];
          g = (case orchestrator_config T of
                 Some c \<Rightarrow> c
               | None \<Rightarrow> \<lparr>git_auto_commit = True, git_commit_prefix = ''feat'',
                           git_require_verification = True\<rparr>);
          verified = (case verification of Some v \<Rightarrow> v \<noteq> [] | None \<Rightarrow> False)
      in if git_require_verification g \<and> \<not> verified
         then (Inr (join NL (result_lines
                      @ [WARNING_SIGN @ '' Verification required but not provided - skipping commit''])),
               w)
         else
           let result_lines = (if verified
                               then result_lines @ [''Verification: '' @ opt_str verification]
                               else result_lines);
               result_lines = (case tests_passed of
                                 None \<Rightarrow> result_lines
                               | Some ok \<Rightarrow>
                                   result_lines
                                   @ [''Tests: '' @ (if ok then CHECK_MARK @ '' Passed''
                                                     else BALLOT_X @ '' Failed'')])
           in if \<not> git_auto_commit g
              then (Inr (join NL (result_lines
                           @ [NL @ ''Auto-commit disabled - changes not committed.''])), w)
              else
                (let r = git_commit_phase E T w (git_commit_prefix g) phase_name summary
                           verification files_changed
                 in (Inr (join NL (result_lines @ [fst r])), snd r)))"

definition bullet_list :: "string list \<Rightarrow> string" where
  "bullet_list xs = join NL (map (\<lambda>s. ''- '' @ s) xs)"

definition tool_task_complete :: "string \<Rightarrow> string list option \<Rightarrow> string" where
  "tool_task_complete summary next_steps =
     (let result = ''Task completed: '' @ summary
      in case next_steps of
           None \<Rightarrow> result
         | Some steps \<Rightarrow>
             if steps = [] then result
             else result @ NL @ NL @ ''Suggested next steps:'' @ NL @ bullet_list steps)"

definition tool_request_help :: "string \<Rightarrow> string option \<Rightarrow> string list option \<Rightarrow> string" where
  "tool_request_help question ctxt options =
     (let result = ''HELP REQUESTED: '' @ question;
          result = (case ctxt of
                      None \<Rightarrow> result
                    | Some c \<Rightarrow> if c = [] then result else result @ NL @ NL @ ''Context: '' @ c)
      in case options of
           None \<Rightarrow> result
         | Some os \<Rightarrow>
             if os = [] then result
             else result @ NL @ NL @ ''Options:'' @ NL @ bullet_list os)"

subsection \<open>Dispatch: \<open>Tools.execute\<close>\<close>

text \<open>
  \<open>method(**tool_input)\<close> binds the keys of the input dict to the parameters of the
  method. A key that is no parameter, or a missing required parameter, raises
  \<open>TypeError\<close> before the body runs. The values are taken to have the types of the
  published input schema; a value of another type is reported as a \<open>TypeError\<close> of the
  call. The texts of these interpreter messages are schematic.
\<close>

definition bind_error :: "string \<Rightarrow> string list \<Rightarrow> string list \<Rightarrow> pydict \<Rightarrow> exn option" where
  "bind_error fname required optional kw =
     (case filter (\<lambda>k. k \<notin> set (required @ optional)) (map fst kw) of
        k # ks \<Rightarrow> Some (PyException ''TypeError''
                     (fname @ ''() got an unexpected keyword argument '' @ SQ @ k @ SQ))
      | [] \<Rightarrow>
          (case filter (\<lambda>k. k \<notin> set (map fst kw)) required of
             k # ks \<Rightarrow> Some (PyException ''TypeError''
                          (fname @ ''() missing required argument: '' @ SQ @ k @ SQ))
           | [] \<Rightarrow> None))"

definition ill_typed :: "string \<Rightarrow> exn" where
  "ill_typed fname = PyException ''TypeError'' (fname @ ''() argument of the wrong type'')"

definition str_arg :: "pydict \<Rightarrow> string \<Rightarrow> string option" where
  "str_arg kw k = (case map_of kw k of Some (JStr s) \<Rightarrow> Some s | _ \<Rightarrow> None)"

definition opt_str_arg :: "pydict \<Rightarrow> string \<Rightarrow> string option option" where
  "opt_str_arg kw k =
     (case map_of kw k of
        None \<Rightarrow> Some None | Some JNull \<Rightarrow> Some None | Some (JStr s) \<Rightarrow> Some (Some s)
      | _ \<Rightarrow> None)"

definition int_arg :: "pydict \<Rightarrow> string \<Rightarrow> int \<Rightarrow> int option" where
  "int_arg kw k d = (case map_of kw k of None \<Rightarrow> Some d | Some (JInt i) \<Rightarrow> Some i | _ \<Rightarrow> None)"

definition opt_int_arg :: "pydict \<Rightarrow> string \<Rightarrow> int option option" where
  "opt_int_arg kw k =
     (case map_of kw k of
        None \<Rightarrow> Some None | Some JNull \<Rightarrow> Some None | Some (JInt i) \<Rightarrow> Some (Some i)
      | _ \<Rightarrow> None)"

definition bool_arg :: "pydict \<Rightarrow> string \<Rightarrow> bool \<Rightarrow> bool option" where
  "bool_arg kw k d = (case map_of kw k of None \<Rightarrow> Some d | Some (JBool b) \<Rightarrow> Some b | _ \<Rightarrow> None)"

definition opt_bool_arg :: "pydict \<Rightarrow> string \<Rightarrow> bool option option" where
  "opt_bool_arg kw k =
     (case map_of kw k of
        None \<Rightarrow> Some None | Some JNull \<Rightarrow> Some None | Some (JBool b) \<Rightarrow> Some (Some b)
      | _ \<Rightarrow> None)"

fun json_strings :: "json list \<Rightarrow> string list option" where
  "json_strings [] = Some []"
| "json_strings (JStr s # js) = map_option ((#) s) (json_strings js)"
| "json_strings (j # js) = None"

definition opt_list_arg :: "pydict \<Rightarrow> string \<Rightarrow> string list option option" where
  "opt_list_arg kw k =
     (case map_of kw k of
        None \<Rightarrow> Some None | Some JNull \<Rightarrow> Some None
      | Some (JList js) \<Rightarrow> map_option Some (json_strings js)
      | _ \<Rightarrow> None)"

text \<open>The bound methods: for each tool, the call with the input dict as keyword
  arguments.\<close>

definition call_read_file :: "'w env \<Rightarrow> Tools \<Rightarrow> pydict \<Rightarrow> 'w \<Rightarrow> (exn + string) \<times> 'w" where
  "call_read_file E T kw w =
     (case bind_error ''Tools.tool_read_file'' [''path''] [''offset'', ''limit''] kw of
        Some e \<Rightarrow> (Inl e, w)
      | None \<Rightarrow>
          (case (str_arg kw ''path'', int_arg kw ''offset'' 1, int_arg kw ''limit'' 2000) of
             (Some path, Some offset, Some limit) \<Rightarrow> tool_read_file E T w path offset limit
           | _ \<Rightarrow> (Inl (ill_typed ''Tools.tool_read_file''), w)))"

definition call_write_file :: "'w env \<Rightarrow> Tools \<Rightarrow> pydict \<Rightarrow> 'w \<Rightarrow> (exn + string) \<times> 'w" where
  "call_write_file E T kw w =
     (case bind_error ''Tools.tool_write_file'' [''path'', ''content''] [] kw of
        Some e \<Rightarrow> (Inl e, w)
      | None \<Rightarrow>
          (case (str_arg kw ''path'', str_arg kw ''content'') of
             (Some path, Some text) \<Rightarrow> tool_write_file E T w path text
           | _ \<Rightarrow> (Inl (ill_typed ''Tools.tool_write_file''), w)))"

definition call_edit_file :: "'w env \<Rightarrow> Tools \<Rightarrow> pydict \<Rightarrow> 'w \<Rightarrow> (exn + string) \<times> 'w" where
  "call_edit_file E T kw w =
     (case bind_error ''Tools.tool_edit_file'' [''path'', ''old_string'', ''new_string'']
             [''replace_all''] kw of
        Some e \<Rightarrow> (Inl e, w)
      | None \<Rightarrow>
          (case (str_arg kw ''path'', str_arg kw ''old_string'', str_arg kw ''new_string'',
                 bool_arg kw ''replace_all'' False) of
             (Some path, Some old_string, Some new_string, Some replace_all) \<Rightarrow>
               tool_edit_file E T w path old_string new_string replace_all
           | _ \<Rightarrow> (Inl (ill_typed ''Tools.tool_edit_file''), w)))"

definition call_bash :: "'w env \<Rightarrow> Tools \<Rightarrow> pydict \<Rightarrow> 'w \<Rightarrow> (exn + string) \<times> 'w" where
  "call_bash E T kw w =
     (case bind_error ''Tools.tool_bash'' [''command''] [''timeout''] kw of
        Some e \<Rightarrow> (Inl e, w)
      | None \<Rightarrow>
          (case (str_arg kw ''command'', opt_int_arg kw ''timeout'') of
             (Some command, Some timeout) \<Rightarrow> tool_bash E T w command timeout
           | _ \<Rightarrow> (Inl (ill_typed ''Tools.tool_bash''), w)))"

definition call_glob :: "'w env \<Rightarrow> Tools \<Rightarrow> pydict \<Rightarrow> 'w \<Rightarrow> (exn + string) \<times> 'w" where
  "call_glob E T kw w =
     (case bind_error ''Tools.tool_glob'' [''pattern''] [''path''] kw of
        Some e \<Rightarrow> (Inl e, w)
      | None \<Rightarrow>
          (case (str_arg kw ''pattern'', opt_str_arg kw ''path'') of
             (Some pattern, Some path) \<Rightarrow> tool_glob E T w pattern path
           | _ \<Rightarrow> (Inl (ill_typed ''Tools.tool_glob''), w)))"

definition call_grep :: "'w env \<Rightarrow> Tools \<Rightarrow> pydict \<Rightarrow> 'w \<Rightarrow> (exn + string) \<times> 'w" where
  "call_grep E T kw w =
     (case bind_error ''Tools.tool_grep'' [''pattern'']
             [''path'', ''glob_filter'', ''case_insensitive''] kw of
        Some e \<Rightarrow> (Inl e, w)
      | None \<Rightarrow>
          (case (str_arg kw ''pattern'', opt_str_arg kw ''path'', opt_str_arg kw ''glob_filter'',
                 bool_arg kw ''case_insensitive'' False) of
             (Some pattern, Some path, Some glob_filter, Some case_insensitive) \<Rightarrow>
               tool_grep E T w pattern path glob_filter case_insensitive
           | _ \<Rightarrow> (Inl (ill_typed ''Tools.tool_grep''), w)))"

definition call_list_dir :: "'w env \<Rightarrow> Tools \<Rightarrow> pydict \<Rightarrow> 'w \<Rightarrow> (exn + string) \<times> 'w" where
  "call_list_dir E T kw w =
     (case bind_error ''Tools.tool_list_dir'' [] [''path''] kw of
        Some e \<Rightarrow> (Inl e, w)
      | None \<Rightarrow>
          (case opt_str_arg kw ''path'' of
             Some path \<Rightarrow> tool_list_dir E T w path
           | None \<Rightarrow> (Inl (ill_typed ''Tools.tool_list_dir''), w)))"

definition call_phase_complete :: "'w env \<Rightarrow> Tools \<Rightarrow> pydict \<Rightarrow> 'w \<Rightarrow> (exn + string) \<times> 'w" where
  "call_phase_complete E T kw w =
     (case bind_error ''Tools.tool_phase_complete'' [''phase_name'', ''summary'']
             [''verification'', ''files_changed'', ''tests_passed''] kw of
        Some e \<Rightarrow> (Inl e, w)
      | None \<Rightarrow>
          (case (str_arg kw ''phase_name'', str_arg kw ''summary'', opt_str_arg kw ''verification'',
                 opt_list_arg kw ''files_changed'', opt_bool_arg kw ''tests_passed'') of
             (Some phase_name, Some summary, Some verification, Some files_changed,
              Some tests_passed) \<Rightarrow>
               tool_phase_complete E T w phase_name summary verification files_changed tests_passed
           | _ \<Rightarrow> (Inl (ill_typed ''Tools.tool_phase_complete''), w)))"

definition call_task_complete :: "pydict \<Rightarrow> 'w \<Rightarrow> (exn + string) \<times> 'w" where
  "call_task_complete kw w =
     (case bind_error ''Tools.tool_task_complete'' [''summary''] [''next_steps''] kw of
        Some e \<Rightarrow> (Inl e, w)
      | None \<Rightarrow>
          (case (str_arg kw ''summary'', opt_list_arg kw ''next_steps'') of
             (Some summary, Some next_steps) \<Rightarrow> (Inr (tool_task_complete summary next_steps), w)
           | _ \<Rightarrow> (Inl (ill_typed ''Tools.tool_task_complete''), w)))"

definition call_request_help :: "pydict \<Rightarrow> 'w \<Rightarrow> (exn + string) \<times> 'w" where
  "call_request_help kw w =
     (case bind_error ''Tools.tool_request_help'' [''question''] [''context'', ''options''] kw of
        Some e \<Rightarrow> (Inl e, w)
      | None \<Rightarrow>
          (case (str_arg kw ''question'', opt_str_arg kw ''context'', opt_list_arg kw ''options'') of
             (Some question, Some ctxt, Some options) \<Rightarrow>
               (Inr (tool_request_help question ctxt options), w)
           | _ \<Rightarrow> (Inl (ill_typed ''Tools.tool_request_help''), w)))"

text \<open>\<open>getattr(self, f"tool_{tool_name}", None)\<close>: the class has exactly these ten
  attributes whose names start with \<open>tool_\<close>.\<close>

definition tool_names :: "string list" where
  "tool_names = [''read_file'', ''write_file'', ''edit_file'', ''bash'', ''glob'', ''grep'',
                 ''list_dir'', ''phase_complete'', ''task_complete'', ''request_help'']"

definition tool_method ::
  "'w env \<Rightarrow> Tools \<Rightarrow> string \<Rightarrow> (pydict \<Rightarrow> 'w \<Rightarrow> (exn + string) \<times> 'w) option" where
  "tool_method E T tool_name =
     (if tool_name = ''read_file'' then Some (call_read_file E T)
      else if tool_name = ''write_file'' then Some (call_write_file E T)
      else if tool_name = ''edit_file'' then Some (call_edit_file E T)
      else if tool_name = ''bash'' then Some (call_bash E T)
      else if tool_name = ''glob'' then Some (call_glob E T)
      else if tool_name = ''grep'' then Some (call_grep E T)
      else if tool_name = ''list_dir'' then Some (call_list_dir E T)
      else if tool_name = ''phase_complete'' then Some (call_phase_complete E T)
      else if tool_name = ''task_complete'' then Some call_task_complete
      else if tool_name = ''request_help'' then Some call_request_help
      else None)"

text \<open>\<open>execute\<close>: what the call does to its caller is either to return a pair or to
  raise; the \<open>try\<close> statement turns each exception of the method into a pair.\<close>

datatype 'a outcome = Returns 'a | Raises exn

definition execute ::
  "'w env \<Rightarrow> Tools \<Rightarrow> 'w \<Rightarrow> string \<Rightarrow> pydict \<Rightarrow> (string \<times> bool) outcome \<times> 'w" where
  "execute E T w tool_name tool_input =
     (case tool_method E T tool_name of
        None \<Rightarrow> (Returns (''Unknown tool: '' @ tool_name, True), w)
      | Some method \<Rightarrow>
          (case method tool_input w of
             (Inr result, w') \<Rightarrow> (Returns (result, False), w')
           | (Inl (ToolError m), w') \<Rightarrow> (Returns (m, True), w')
           | (Inl (PyException ty m), w') \<Rightarrow>
               (Returns (''Tool error: '' @ ty @ '': '' @ m, True), w')))"

section \<open>Example values\<close>

text \<open>Concrete values on which the definitions are evaluated. \<open>dumps0\<close> stands for
  \<open>json.dumps\<close> where no tool-use block is serialised.\<close>

definition dumps0 :: "json \<Rightarrow> string" where
  "dumps0 j = ''{}''"

definition ctx0 :: ContextManager where
  "ctx0 = ContextManager_new ''abcd'' 150000 (6 / 10) (8 / 10)"

definition ctx3 :: ContextManager where
  "ctx3 = ctx0\<lparr>messages := [\<lparr>role = ''user'', content = Str ''a''\<rparr>,
                              \<lparr>role = ''assistant'', content = Blocks [Text ''b'']\<rparr>,
                              \<lparr>role = ''user'', content = Str ''c''\<rparr>]\<rparr>"

definition tu0 :: TokenUsage where
  "tu0 = \<lparr>input_tokens = 0, output_tokens = 0, cache_read_tokens = 0, cache_creation_tokens = 0\<rparr>"

definition store0 :: store where
  "store0 = \<lparr>checkpoint_file = Missing, history_file = [], learnings_file = Missing,
             completed_files = []\<rparr>"


definition cfg0 :: CostConfig where
  "cfg0 = \<lparr>warn = 10, alert = 25, max_limit = 50\<rparr>"





definition config0 :: OrchestratorConfig where
  "config0 = \<lparr>cfg_model = ''claude-sonnet-4-5-20250929'', max_tokens = 8192,
              cfg_max_context_tokens = 150000, cfg_checkpoint_threshold = 6 / 10,
              cfg_summary_threshold = 8 / 10, cost_config = cfg0, cfg_pricing = DEFAULT_PRICING,
              max_iterations = 500, max_tool_calls_per_turn = 20, cooldown_on_error = 5\<rparr>"

definition orch0 :: "unit Orchestrator" where
  "orch0 = \<lparr>project_dir = ''/tmp/proj'', o_config = config0, o_context = Some ctx0,
            token_usage = tu0, cost_tracker = CostTracker_init cfg0 DEFAULT_PRICING True True,
            task_description = ''task'', completed_tasks = [], is_complete = False,
            needs_human_input = False, human_input_request = [], checkpoint_mgr = store0,
            outputs = [], world = ()\<rparr>"


definition cp12 :: checkpoint where
  "cp12 = \<lparr>version = 1, timestamp = ''2026-01-01T00:00:00'', cp_task_description = ''task'',
           current_phase = None, cp_completed_tasks = [''phase one''],
           cp_token_usage = TokenUsage_to_dict tu0, cp_total_cost = 12,
           cp_context = to_dict ctx3, extra_state = []\<rparr>"

definition orch12 :: "unit Orchestrator" where
  "orch12 = orch0\<lparr>o_context := None, checkpoint_mgr := store0\<lparr>checkpoint_file := Valid cp12\<rparr>\<rparr>"

section \<open>A small in-memory environment\<close>

text \<open>
  An environment on which the tools are run on concrete inputs: files with their text,
  directories, and the list of shell commands that were started. It has no symbolic
  links, so \<open>resolve\<close> only removes double dots.
\<close>

record memfs =
  mem_files :: "(string list \<times> string) list"
  mem_dirs :: "string list list"
  launched :: "string list"

definition collapse :: "string list \<Rightarrow> string list" where
  "collapse ps = foldl (\<lambda>acc p. if p = ''..'' then butlast acc else acc @ [p]) [] ps"

definition mem_children :: "memfs \<Rightarrow> string list \<Rightarrow> string list" where
  "mem_children w d =
     remdups (map last (filter (\<lambda>q. q \<noteq> [] \<and> butlast q = d) (map fst (mem_files w) @ mem_dirs w)))"

definition no_such_file :: exn where
  "no_such_file = PyException ''FileNotFoundError'' ''[Errno 2] No such file or directory''"

definition mem_env :: "memfs env" where
  "mem_env =
     \<lparr>env_realpath = (\<lambda>w p. Inr (Path (path_root p) (collapse (path_parts p)))),
      env_exists = (\<lambda>w p. collapse (path_parts p) \<in> set (mem_dirs w)
                          \<or> map_of (mem_files w) (collapse (path_parts p)) \<noteq> None),
      env_is_file = (\<lambda>w p. map_of (mem_files w) (collapse (path_parts p)) \<noteq> None),
      env_is_dir = (\<lambda>w p. collapse (path_parts p) \<in> set (mem_dirs w)),
      env_read_text = (\<lambda>w p. case map_of (mem_files w) (collapse (path_parts p)) of
                               Some text \<Rightarrow> Inr text | None \<Rightarrow> Inl no_such_file),
      env_write_text = (\<lambda>w p text.
                          (None, w\<lparr>mem_files := (collapse (path_parts p), text) # mem_files w\<rparr>)),
      env_mkdir_parents = (\<lambda>w p. (None, w\<lparr>mem_dirs := collapse (path_parts p) # mem_dirs w\<rparr>)),
      env_iterdir = (\<lambda>w p. Inr (mem_children w (collapse (path_parts p)))),
      env_stat_size = (\<lambda>w p. case map_of (mem_files w) (collapse (path_parts p)) of
                               Some text \<Rightarrow> Inr (length text) | None \<Rightarrow> Inl no_such_file),
      env_rglob = (\<lambda>w p pat. Inr []),
      env_re_compile = (\<lambda>pat ci. Inr (\<lambda>line. contains line pat)),
      env_fnmatch = (\<lambda>name pat. name = pat),
      env_run = (\<lambda>w cmd dir t. (Completed [] [] 0, w\<lparr>launched := launched w @ [cmd]\<rparr>)),
      env_run_argv = (\<lambda>w argv dir t.
                        (Completed [] [] 0, w\<lparr>launched := launched w @ [join '' '' argv]\<rparr>))\<rparr>"

definition proj :: ppath where
  "proj = Path ''/'' [''tmp'', ''proj'']"

definition shell_policy :: bash_config where
  "shell_policy = \<lparr>bash_timeout = None, bash_allowed = [''ls'', ''cat''],
                   bash_blocked = [''rm''], bash_confirm = [''mv'']\<rparr>"

definition tools0 :: Tools where
  "tools0 = \<lparr>tools_project_dir = proj, tools_bash_config = shell_policy,
             orchestrator_config = None, on_confirm_request = None\<rparr>"

definition fs0 :: memfs where
  "fs0 = \<lparr>mem_files = [([''tmp'', ''proj'', ''x.py''], ''x = 1'' @ NL @ ''x = 1'' @ NL),
                        ([''tmp'', ''proj'', ''.autopilot'', ''checkpoint.json''], ''{}''),
                        ([''etc'', ''passwd''], ''root'')],
          mem_dirs = [[''tmp'', ''proj''], [''tmp'', ''proj'', ''.autopilot''],
                      [''tmp'', ''proj'', ''src''], [''etc''], [''tmp''], []],
          launched = []\<rparr>"

definition fs_hidden :: memfs where
  "fs_hidden = \<lparr>mem_files = [([''tmp'', ''proj'', ''.autopilot'', ''checkpoint.json''], ''{}'')],
                mem_dirs = [[''tmp'', ''proj''], [''tmp'', ''proj'', ''.autopilot'']],
                launched = []\<rparr>"

section \<open>Summarization (context.py)\<close>

lemma cut_nat: "0 \<le> k \<Longrightarrow> k * 2 < int n \<Longrightarrow> nat (int n - k * 2) = n - nat (2 * k)"
  by (simp add: nat_diff_distrib' mult.commute)

text \<open>
  C5, as amended. For every summary \<open>S\<close> and every integer \<open>k \<ge> 0\<close>, after
  \<open>summarize_old_context S k\<close> on a message list of length \<open>N > 2k\<close>: the list is the
  synthetic user message holding the summary envelope followed by the last \<open>2k\<close> old
  messages, it has exactly \<open>2k + 1\<close> messages, its last \<open>2k\<close> messages are the last \<open>2k\<close>
  old ones in the same order, and the system prompt is untouched.
\<close>

theorem summarize_old_context_keeps_tail:
  assumes "0 \<le> k" and "int (length (messages ctx)) > 2 * k"
  shows "messages (summarize_old_context dumps S k ctx)
           = summary_msg (length (messages ctx) - nat (2 * k)) S
               # last_n (nat (2 * k)) (messages ctx)
       \<and> int (length (messages (summarize_old_context dumps S k ctx))) = 2 * k + 1
       \<and> last_n (nat (2 * k)) (messages (summarize_old_context dumps S k ctx))
           = last_n (nat (2 * k)) (messages ctx)
       \<and> system_prompt (summarize_old_context dumps S k ctx) = system_prompt ctx"
proof -
  let ?ms = "messages ctx"
  let ?n = "length ?ms - nat (2 * k)"
  have cut: "nat (int (length ?ms) - k * 2) = ?n" using assms by (intro cut_nat) simp_all
  have ms': "messages (summarize_old_context dumps S k ctx) = summary_msg ?n S # drop ?n ?ms"
    using assms unfolding summarize_old_context_def Let_def
    by (simp add: update_token_estimate_def py_take_def py_drop_def cut)
  have len: "length (drop ?n ?ms) = nat (2 * k)" using assms by simp
  have sp: "system_prompt (summarize_old_context dumps S k ctx) = system_prompt ctx"
    unfolding summarize_old_context_def Let_def by (simp add: update_token_estimate_def)
  show ?thesis
    unfolding ms' last_n_def using assms len sp by simp
qed

theorem summarize_old_context_keeps_tail_witness:
  "(0::int) \<le> 1 \<and> int (length (messages ctx3)) > 2 * 1
   \<and> messages (summarize_old_context dumps0 ''S'' 1 ctx3)
        = [summary_msg 1 ''S'', \<lparr>role = ''assistant'', content = Blocks [Text ''b'']\<rparr>,
           \<lparr>role = ''user'', content = Str ''c''\<rparr>]
   \<and> system_prompt (summarize_old_context dumps0 ''S'' 1 ctx3) = ''abcd''"
  using summarize_old_context_keeps_tail [of 1 ctx3 dumps0 "''S''"]
  by (simp add: ctx3_def ctx0_def ContextManager_new_def last_n_def)

text \<open>The claim as stated, for every integer \<open>k\<close>, fails at \<open>k = -1\<close> on the empty
  message list: \<open>N = 0 > 2k\<close>, and the result has one message, not \<open>2k + 1 = -1\<close>.\<close>

theorem summarize_negative_k_counterexample:
  "int (length (messages ctx0)) > 2 * (- 1)
   \<and> int (length (messages (summarize_old_context dumps0 ''S'' (- 1) ctx0))) \<noteq> 2 * (- 1) + 1"
  by (simp add: summarize_old_context_def ctx0_def ContextManager_new_def
        update_token_estimate_def py_take_def py_drop_def)


section \<open>Checkpoint round trip (checkpoint.py, context.py)\<close>





section \<open>Threshold latches (costs.py)\<close>

lemma latch_inv_init: "latch_inv cfg (CostTracker_init cfg pr w a)"
  by (simp add: latch_inv_def CostTracker_init_def)

lemma latch_inv_check:
  "latch_inv cfg t \<Longrightarrow> latch_inv cfg (check_thresholds t)"
  by (auto simp: latch_inv_def check_thresholds_def Let_def)

lemma latch_inv_total:
  "latch_inv cfg t \<Longrightarrow> latch_inv cfg (t\<lparr>total_cost := c\<rparr>)"
  by (simp add: latch_inv_def)

lemma latch_inv_add_usage:
  "latch_inv cfg t \<Longrightarrow> latch_inv cfg (snd (add_usage model inp outp t))"
  unfolding add_usage_def Let_def snd_conv
  by (rule latch_inv_check) (simp add: latch_inv_def)

lemma latch_inv_do_call: "latch_inv cfg t \<Longrightarrow> latch_inv cfg (do_call t c)"
  by (cases c) (simp_all add: latch_inv_add_usage set_initial_cost_def latch_inv_check latch_inv_total)

lemma latch_inv_do_calls: "latch_inv cfg t \<Longrightarrow> latch_inv cfg (do_calls cs t)"
  unfolding do_calls_def
  by (induction cs arbitrary: t) (simp_all add: latch_inv_do_call)

text \<open>
  C6. Over any sequence of \<open>add_usage\<close> and \<open>set_initial_cost\<close> calls on a new
  CostTracker, \<open>on_warning\<close> is invoked at most once and \<open>on_alert\<close> at most once, and
  every invocation is passed a total cost at or above its threshold, so neither is invoked
  while the total is strictly below it. The sequence is arbitrary, so this covers every
  lifetime that contains \<open>set_initial_cost c\<close> with \<open>c \<ge> warn\<close>.
\<close>

theorem threshold_latches:
  "length (filter is_warning_call (callback_calls (do_calls cs (CostTracker_init cfg pr w a)))) \<le> 1
   \<and> length (filter is_alert_call (callback_calls (do_calls cs (CostTracker_init cfg pr w a)))) \<le> 1
   \<and> list_all (call_at_or_above cfg) (callback_calls (do_calls cs (CostTracker_init cfg pr w a)))"
  using latch_inv_do_calls [OF latch_inv_init, of cfg cs pr w a]
  by (simp add: latch_inv_def)

theorem threshold_latches_witness:
  "callback_calls (do_calls [SetInitialCost 12, AddUsage ''sonnet'' 1000000 1000000,
        SetInitialCost 30, AddUsage ''opus'' 1000000 0] (CostTracker_init cfg0 DEFAULT_PRICING True True))
     = [OnWarning 12, OnAlert 30]"
  using threshold_latches [of "[SetInitialCost 12, AddUsage ''sonnet'' 1000000 1000000,
        SetInitialCost 30, AddUsage ''opus'' 1000000 0]" cfg0 DEFAULT_PRICING True True]
  by code_simp

section \<open>Tool-result pairing (orchestrator.py, context.py)\<close>














section \<open>Resume (orchestrator.py, costs.py)\<close>

lemma check_thresholds_fields:
  "total_cost (check_thresholds t) = total_cost t"
  "config (check_thresholds t) = config t"
  "warning_acknowledged (check_thresholds t)
     = (warning_acknowledged t \<or> warn (config t) \<le> total_cost t)"
  "alert_acknowledged (check_thresholds t)
     = (alert_acknowledged t \<or> alert (config t) \<le> total_cost t)"
  by (auto simp: check_thresholds_def Let_def)

text \<open>
  C7, as amended. After \<open>resume\<close> succeeds on a valid checkpoint, the messages, the
  token usage counters and the total cost equal the checkpointed values, and the system
  prompt is rebuilt from the checkpoint's task and completed-task list and the current
  learnings. The cost latches are not cleared: \<open>set_initial_cost\<close> re-evaluates them
  against the restored total, so each latch is set afterwards exactly when it was set
  before or the restored total has reached its threshold.
\<close>

theorem resume_restores:
  assumes "checkpoint_file (checkpoint_mgr orch) = Valid cp"
  shows "fst (resume dumps py_str orch) = True
       \<and> map_option messages (o_context (snd (resume dumps py_str orch)))
           = Some (cd_messages (cp_context cp))
       \<and> map_option system_prompt (o_context (snd (resume dumps py_str orch)))
           = Some (build_system_prompt py_str (project_dir orch) (cp_task_description cp)
                    (cp_completed_tasks cp) (load_learnings (checkpoint_mgr orch)))
       \<and> input_tokens (token_usage (snd (resume dumps py_str orch))) = tu_input_tokens (cp_token_usage cp)
       \<and> output_tokens (token_usage (snd (resume dumps py_str orch))) = tu_output_tokens (cp_token_usage cp)
       \<and> cache_read_tokens (token_usage (snd (resume dumps py_str orch)))
           = tu_cache_read_tokens (cp_token_usage cp)
       \<and> cache_creation_tokens (token_usage (snd (resume dumps py_str orch)))
           = tu_cache_creation_tokens (cp_token_usage cp)
       \<and> total_cost (cost_tracker (snd (resume dumps py_str orch))) = cp_total_cost cp
       \<and> warning_acknowledged (cost_tracker (snd (resume dumps py_str orch)))
           = (warning_acknowledged (cost_tracker orch)
              \<or> warn (config (cost_tracker orch)) \<le> cp_total_cost cp)
       \<and> alert_acknowledged (cost_tracker (snd (resume dumps py_str orch)))
           = (alert_acknowledged (cost_tracker orch)
              \<or> alert (config (cost_tracker orch)) \<le> cp_total_cost cp)"
  using assms
  by (simp add: resume_def restore_context_def load_def Let_def from_dict_def
      ContextManager_new_def update_token_estimate_def set_initial_cost_def
      check_thresholds_fields)

theorem resume_restores_witness:
  "checkpoint_file (checkpoint_mgr orch12) = Valid cp12
   \<and> fst (resume dumps0 dumps0 orch12) = True
   \<and> map_option messages (o_context (snd (resume dumps0 dumps0 orch12))) = Some (messages ctx3)
   \<and> total_cost (cost_tracker (snd (resume dumps0 dumps0 orch12))) = 12
   \<and> alert_acknowledged (cost_tracker (snd (resume dumps0 dumps0 orch12))) = False"
  using resume_restores [of orch12 cp12 dumps0 dumps0]
  by (simp add: orch12_def orch0_def cp12_def store0_def to_dict_def CostTracker_init_def cfg0_def)

text \<open>Resuming a new orchestrator from a checkpoint with total cost 12 and a warning
  threshold of 10 leaves the warning latch set, after invoking \<open>on_warning\<close>.\<close>

theorem resume_latch_counterexample:
  "fst (resume dumps0 dumps0 orch12) = True
   \<and> warning_acknowledged (cost_tracker (snd (resume dumps0 dumps0 orch12))) = True
   \<and> callback_calls (cost_tracker (snd (resume dumps0 dumps0 orch12))) = [OnWarning 12]"
  by (simp add: resume_def restore_context_def load_def Let_def orch12_def orch0_def cp12_def
      store0_def set_initial_cost_def check_thresholds_def CostTracker_init_def cfg0_def)

end
